theory Spec2Isabelle
  imports Main
begin

section \<open>Python values and exceptions\<close>

text \<open>
  The values that flow through \<open>envmanager\<close> come out of \<open>json.loads\<close> and
  \<open>response.json()\<close>: \<open>None\<close>, booleans, integers, strings, lists and dictionaries
  with string keys. \<open>JNull\<close> is Python's \<open>None\<close>. A dictionary is the list of its
  items, looked up with \<open>map_of\<close>. JSON numbers with a fraction or an exponent (Python
  floats) are left out. Strings are \<open>char list\<close>.
\<close>

datatype json =
    JNull
  | JBool bool
  | JInt int
  | JStr string
  | JArr "json list"
  | JObj "(string \<times> json) list"

type_synonym pyval = json

text \<open>
  The exceptions the code raises or lets through. \<open>ValueError\<close> and
  \<open>GetPackageInfoError\<close> carry their message and the exception they were raised
  \<open>from\<close> (\<open>__cause__\<close>). \<open>CalledProcessError\<close> carries the return code and the
  command. \<open>HTTPError\<close>, \<open>ConnectionError\<close> and \<open>RequestsJSONDecodeError\<close> are the
  subclasses of \<open>requests.RequestException\<close> that the three calls of
  \<open>get_package_info\<close> raise.
\<close>

datatype pyexc =
    OSError
  | FileNotFoundError string
  | CalledProcessError int "string list"
  | JSONDecodeError
  | ConnectionError
  | HTTPError int
  | RequestsJSONDecodeError
  | GetPackageInfoError string "pyexc option"
  | ValueError string "pyexc option"
  | TypeError
  | KeyError string
  | AttributeError

text \<open>The class an \<open>except\<close> clause sees.\<close>

fun exc_kind :: "pyexc \<Rightarrow> string" where
  "exc_kind OSError = ''OSError''"
| "exc_kind (FileNotFoundError m) = ''FileNotFoundError''"
| "exc_kind (CalledProcessError rc cmd) = ''CalledProcessError''"
| "exc_kind JSONDecodeError = ''JSONDecodeError''"
| "exc_kind ConnectionError = ''ConnectionError''"
| "exc_kind (HTTPError st) = ''HTTPError''"
| "exc_kind RequestsJSONDecodeError = ''JSONDecodeError''"
| "exc_kind (GetPackageInfoError m c) = ''GetPackageInfoError''"
| "exc_kind (ValueError m c) = ''ValueError''"
| "exc_kind TypeError = ''TypeError''"
| "exc_kind (KeyError k) = ''KeyError''"
| "exc_kind AttributeError = ''AttributeError''"

text \<open>\<open>except requests.RequestException\<close>: the subclasses it catches.\<close>

fun is_RequestException :: "pyexc \<Rightarrow> bool" where
  "is_RequestException ConnectionError = True"
| "is_RequestException (HTTPError st) = True"
| "is_RequestException RequestsJSONDecodeError = True"
| "is_RequestException e = False"

subsection \<open>Operators of Python on these values\<close>

text \<open>\<open>a == b\<close>. Python's \<open>True == 1\<close> and \<open>False == 0\<close> hold; dictionaries are
  equal when they have the same keys with equal values.\<close>

fun py_eq :: "pyval \<Rightarrow> pyval \<Rightarrow> bool" where
  "py_eq JNull JNull = True"
| "py_eq (JBool a) (JBool b) = (a = b)"
| "py_eq (JBool a) (JInt n) = (n = (if a then 1 else 0))"
| "py_eq (JInt n) (JBool a) = (n = (if a then 1 else 0))"
| "py_eq (JInt m) (JInt n) = (m = n)"
| "py_eq (JStr s) (JStr t) = (s = t)"
| "py_eq (JArr xs) (JArr ys) = list_all2 py_eq xs ys"
| "py_eq (JObj kvs) (JObj kws) =
     (length kvs = length kws \<and>
      list_all (\<lambda>(k, v). case map_of kws k of None \<Rightarrow> False | Some w \<Rightarrow> py_eq v w) kvs)"
| "py_eq _ _ = False"

text \<open>\<open>if x:\<close>, the truth value of an object.\<close>

fun py_truthy :: "pyval \<Rightarrow> bool" where
  "py_truthy JNull = False"
| "py_truthy (JBool b) = b"
| "py_truthy (JInt n) = (n \<noteq> 0)"
| "py_truthy (JStr s) = (s \<noteq> [])"
| "py_truthy (JArr xs) = (xs \<noteq> [])"
| "py_truthy (JObj kvs) = (kvs \<noteq> [])"

text \<open>\<open>obj[key]\<close> with a string key: a dictionary looks the key up and raises
  \<open>KeyError\<close> when it is missing; every other value raises \<open>TypeError\<close>.\<close>

fun py_getitem :: "pyval \<Rightarrow> string \<Rightarrow> pyexc + pyval" where
  "py_getitem (JObj kvs) key =
     (case map_of kvs key of None \<Rightarrow> Inl (KeyError key) | Some v \<Rightarrow> Inr v)"
| "py_getitem obj key = Inl TypeError"

text \<open>\<open>s.startswith(p)\<close> and the substring test \<open>p in s\<close> on strings.\<close>

fun startswith :: "string \<Rightarrow> string \<Rightarrow> bool" where
  "startswith s [] = True"
| "startswith [] (c # p) = False"
| "startswith (d # s) (c # p) = (d = c \<and> startswith s p)"

fun str_contains :: "string \<Rightarrow> string \<Rightarrow> bool" where
  "str_contains [] p = (p = [])"
| "str_contains (d # s) p = (startswith (d # s) p \<or> str_contains s p)"

text \<open>\<open>key in obj\<close> with a string key: key membership for a dictionary, element
  membership for a list, the substring test for a string, \<open>TypeError\<close> otherwise.\<close>

fun py_contains :: "string \<Rightarrow> pyval \<Rightarrow> pyexc + bool" where
  "py_contains key (JObj kvs) = Inr (map_of kvs key \<noteq> None)"
| "py_contains key (JArr xs) = Inr (list_ex (\<lambda>x. py_eq x (JStr key)) xs)"
| "py_contains key (JStr s) = Inr (str_contains s key)"
| "py_contains key obj = Inl TypeError"

text \<open>\<open>for x in obj\<close>: the elements of a list, the keys of a dictionary, the
  characters of a string; \<open>TypeError\<close> otherwise.\<close>

fun py_iter :: "pyval \<Rightarrow> pyexc + pyval list" where
  "py_iter (JArr xs) = Inr xs"
| "py_iter (JObj kvs) = Inr (map (\<lambda>kv. JStr (fst kv)) kvs)"
| "py_iter (JStr s) = Inr (map (\<lambda>c. JStr [c]) s)"
| "py_iter obj = Inl TypeError"

text \<open>\<open>str.lower\<close> on the ASCII letters; \<open>x.lower()\<close> raises \<open>AttributeError\<close>
  on a value that is not a string.\<close>

definition lower_char :: "char \<Rightarrow> char" where
  "lower_char c =
     (case map_of (zip ''ABCDEFGHIJKLMNOPQRSTUVWXYZ'' ''abcdefghijklmnopqrstuvwxyz'') c of
        None \<Rightarrow> c
      | Some d \<Rightarrow> d)"

definition str_lower :: "string \<Rightarrow> string" where
  "str_lower s = map lower_char s"

fun py_lower :: "pyval \<Rightarrow> pyexc + string" where
  "py_lower (JStr s) = Inr (str_lower s)"
| "py_lower obj = Inl AttributeError"

text \<open>\<open>sep.join(parts)\<close>.\<close>

fun str_join :: "string \<Rightarrow> string list \<Rightarrow> string" where
  "str_join sep [] = []"
| "str_join sep [x] = x"
| "str_join sep (x # y # ys) = x @ sep @ str_join sep (y # ys)"

section \<open>The host: file system, processes, the index\<close>

text \<open>
  What a finished subprocess showed: the lines \<open>readline\<close> returned on each of its
  two pipes, in order, and its return code.
\<close>

record completed_process =
  stdout_lines :: "string list"
  stderr_lines :: "string list"
  returncode :: int

text \<open>A response of the index: its status code, and its body decoded as JSON
  (\<open>None\<close> when the body is not JSON).\<close>

record response =
  status_code :: int
  response_json :: "pyval option"

text \<open>
  Everything outside the program is a parameter: \<open>platform.system()\<close>,
  \<open>os.path.join\<close> and \<open>os.path.isfile\<close> of the host, the outcome of running a
  command (\<open>None\<close> when the process cannot be started, which \<open>subprocess\<close> raises as
  \<open>OSError\<close>), \<open>json.loads\<close> (\<open>None\<close> for \<open>JSONDecodeError\<close>) and
  \<open>requests.get\<close> (\<open>None\<close> when the connection fails).
\<close>

record host =
  platform_system :: string
  os_path_join :: "string \<Rightarrow> string list \<Rightarrow> string"
  os_path_isfile :: "string \<Rightarrow> bool"
  spawn :: "string list \<Rightarrow> completed_process option"
  json_loads :: "string \<Rightarrow> pyval option"
  requests_get :: "string \<Rightarrow> response option"

text \<open>\<open>posixpath.join\<close>, the \<open>os.path.join\<close> of a POSIX host.\<close>

fun posixpath_join :: "string \<Rightarrow> string list \<Rightarrow> string" where
  "posixpath_join a [] = a"
| "posixpath_join a (b # p) =
     posixpath_join
       (if startswith b ''/'' then b
        else if a = [] \<or> last a = CHR ''/'' then a @ b
        else a @ ''/'' @ b) p"

subsection \<open>subprocess\<close>

definition check_call :: "host \<Rightarrow> string list \<Rightarrow> pyexc + int" where
  "check_call h cmd =
     (case spawn h cmd of
        None \<Rightarrow> Inl OSError
      | Some p \<Rightarrow>
          if returncode p \<noteq> 0 then Inl (CalledProcessError (returncode p) cmd)
          else Inr 0)"

definition check_output :: "host \<Rightarrow> string list \<Rightarrow> pyexc + string" where
  "check_output h cmd =
     (case spawn h cmd of
        None \<Rightarrow> Inl OSError
      | Some p \<Rightarrow>
          if returncode p \<noteq> 0 then Inl (CalledProcessError (returncode p) cmd)
          else Inr (concat (stdout_lines p)))"

section \<open>venvmngr.utils: run\_subprocess\_with\_streams\<close>

text \<open>
  \<open>read_stream\<close> is the loop of one reader thread: each line read from the pipe goes
  to the callback when there is one. A callback is a function on the state of its
  sink and does not raise; the two sinks have states of their own, so what each
  receives is independent of how the two threads interleave.
\<close>

fun read_stream :: "string list \<Rightarrow> (string \<Rightarrow> 's \<Rightarrow> 's) option \<Rightarrow> 's \<Rightarrow> 's" where
  "read_stream [] callback s = s"
| "read_stream (line # rest) callback s =
     read_stream rest callback
       (case callback of None \<Rightarrow> s | Some f \<Rightarrow> f line s)"

text \<open>
  The function has no \<open>return\<close> statement: it returns \<open>None\<close> when the return code is
  zero. The result holds the states of the two sinks after both threads were joined.
\<close>

definition run_subprocess_with_streams ::
  "host \<Rightarrow> string list \<Rightarrow> (string \<Rightarrow> 'a \<Rightarrow> 'a) option \<Rightarrow> 'a \<Rightarrow>
   (string \<Rightarrow> 'b \<Rightarrow> 'b) option \<Rightarrow> 'b \<Rightarrow> 'a \<times> 'b \<times> (pyexc + pyval)" where
  "run_subprocess_with_streams h args stdout_callback sa stderr_callback sb =
     (case spawn h args of
        None \<Rightarrow> (sa, sb, Inl OSError)
      | Some p \<Rightarrow>
          (let sa' = read_stream (stdout_lines p) stdout_callback sa;
               sb' = read_stream (stderr_lines p) stderr_callback sb
           in if returncode p \<noteq> 0
              then (sa', sb',
                    Inl (ValueError (''Failed to call '' @ str_join '' '' args)
                           (Some (CalledProcessError (returncode p) args))))
              else (sa', sb', Inr JNull)))"

section \<open>envmanager.\_pypi\<close>

text \<open>
  \<open>requests.get\<close> raises on a connection failure, \<open>raise_for_status\<close> raises
  \<open>HTTPError\<close> for a status from 400 to 599, and \<open>response.json()\<close> raises the
  JSON error of \<open>requests\<close> (a \<open>RequestException\<close>) on a body that is not JSON.
\<close>

definition raise_for_status :: "response \<Rightarrow> pyexc + unit" where
  "raise_for_status r =
     (if 400 \<le> status_code r \<and> status_code r < 600 then Inl (HTTPError (status_code r))
      else Inr ())"

definition response_json_call :: "response \<Rightarrow> pyexc + pyval" where
  "response_json_call r =
     (case response_json r of None \<Rightarrow> Inl RequestsJSONDecodeError | Some v \<Rightarrow> Inr v)"

text \<open>The body of the \<open>try\<close> block of \<open>get_package_info\<close>, then the function with
  its \<open>except requests.RequestException\<close> clause.\<close>

definition get_package_info_try :: "host \<Rightarrow> string \<Rightarrow> pyexc + pyval" where
  "get_package_info_try h url =
     (case requests_get h url of
        None \<Rightarrow> Inl ConnectionError
      | Some r \<Rightarrow>
          (case raise_for_status r of
             Inl e \<Rightarrow> Inl e
           | Inr u \<Rightarrow> response_json_call r))"

definition get_package_info :: "host \<Rightarrow> string \<Rightarrow> pyexc + pyval" where
  "get_package_info h package_name =
     (let url = ''https://pypi.org/pypi/'' @ package_name @ ''/json'' in
      case get_package_info_try h url of
        Inr v \<Rightarrow> Inr v
      | Inl exc \<Rightarrow>
          if is_RequestException exc
          then Inl (GetPackageInfoError
                      (''Failed to fetch package data for '' @ package_name @ ''.'')
                      (Some exc))
          else Inl exc)"

section \<open>envmanager: EnvManager\<close>

record env_manager =
  env_path :: string
  python_exe :: string

definition get_python_executable :: "host \<Rightarrow> string \<Rightarrow> pyexc + string" where
  "get_python_executable h env_path' =
     (let python_exe' =
            (if platform_system h = ''Windows''
             then os_path_join h env_path' [''Scripts'', ''python.exe'']
             else os_path_join h env_path' [''bin'', ''python''])
      in if \<not> os_path_isfile h python_exe'
         then Inl (FileNotFoundError
                     (''Python executable not found in virtual environment at '' @ env_path'))
         else Inr python_exe')"

text \<open>\<open>EnvManager.__init__\<close>.\<close>

definition EnvManager :: "host \<Rightarrow> string \<Rightarrow> pyexc + env_manager" where
  "EnvManager h env_path' =
     (case get_python_executable h env_path' of
        Inl e \<Rightarrow> Inl e
      | Inr exe \<Rightarrow> Inr \<lparr>env_path = env_path', python_exe = exe\<rparr>)"

subsection \<open>install\_package\<close>

text \<open>
  \<open>install_cmd\<close> is the local variable of that name when \<open>subprocess.check_call\<close> is
  reached. \<open>if version:\<close> is false for \<open>None\<close> and for the empty string. The
  f-strings put a double quote character (\<open>CHR 0x22\<close>) on each side of the
  requirement.
\<close>

definition set_last :: "'a list \<Rightarrow> 'a \<Rightarrow> 'a list" where
  "set_last xs x = xs[length xs - 1 := x]"

definition install_cmd :: "env_manager \<Rightarrow> string \<Rightarrow> string option \<Rightarrow> bool \<Rightarrow> string list" where
  "install_cmd self package_name version upgrade =
     (let cmd0 = [python_exe self, ''-m'', ''pip'', ''install'', package_name];
          cmd1 =
            (case version of
               None \<Rightarrow> cmd0
             | Some [] \<Rightarrow> cmd0
             | Some (c # cs) \<Rightarrow>
                 if c \<in> set ''<>=''
                 then set_last cmd0 ([CHR 0x22] @ package_name @ (c # cs) @ [CHR 0x22])
                 else set_last cmd0
                        ([CHR 0x22] @ package_name @ ''=='' @ (c # cs) @ [CHR 0x22]))
      in if upgrade then cmd1 @ [''--upgrade''] else cmd1)"

definition install_package ::
  "host \<Rightarrow> env_manager \<Rightarrow> string \<Rightarrow> string option \<Rightarrow> bool \<Rightarrow> pyexc + bool" where
  "install_package h self package_name version upgrade =
     (case check_call h (install_cmd self package_name version upgrade) of
        Inr rc \<Rightarrow> Inr True
      | Inl (CalledProcessError rc cmd) \<Rightarrow> Inr False
      | Inl e \<Rightarrow> Inl e)"

subsection \<open>Listing packages\<close>

definition all_packages :: "host \<Rightarrow> env_manager \<Rightarrow> pyexc + pyval" where
  "all_packages h self =
     (let list_cmd = [python_exe self, ''-m'', ''pip'', ''list'', ''--format=json''] in
      case check_output h list_cmd of
        Inl (CalledProcessError rc cmd) \<Rightarrow>
          Inl (ValueError ''Failed to list packages.'' (Some (CalledProcessError rc cmd)))
      | Inl e \<Rightarrow> Inl e
      | Inr result \<Rightarrow>
          (case json_loads h result of
             None \<Rightarrow> Inl (ValueError ''Failed to parse pip output.'' (Some JSONDecodeError))
           | Some packages \<Rightarrow> Inr packages))"

text \<open>The loop of \<open>get_local_package\<close> over the packages still to visit.\<close>

fun get_local_package_loop :: "string \<Rightarrow> pyval list \<Rightarrow> pyexc + pyval" where
  "get_local_package_loop package_name [] = Inr JNull"
| "get_local_package_loop package_name (pkg # rest) =
     (case py_getitem pkg ''name'' of
        Inl e \<Rightarrow> Inl e
      | Inr n \<Rightarrow>
          (case py_lower n of
             Inl e \<Rightarrow> Inl e
           | Inr l \<Rightarrow>
               if l = str_lower package_name then Inr pkg
               else get_local_package_loop package_name rest))"

definition get_local_package :: "host \<Rightarrow> env_manager \<Rightarrow> string \<Rightarrow> pyexc + pyval" where
  "get_local_package h self package_name =
     (case all_packages h self of
        Inl e \<Rightarrow> Inl e
      | Inr packages \<Rightarrow>
          (case py_iter packages of
             Inl e \<Rightarrow> Inl e
           | Inr pkgs \<Rightarrow> get_local_package_loop package_name pkgs))"

definition get_package_version :: "host \<Rightarrow> env_manager \<Rightarrow> string \<Rightarrow> pyexc + pyval" where
  "get_package_version h self package_name =
     (case get_local_package h self package_name of
        Inl e \<Rightarrow> Inl e
      | Inr listentry \<Rightarrow>
          if py_truthy listentry then py_getitem listentry ''version'' else Inr JNull)"

definition get_remote_package :: "host \<Rightarrow> string \<Rightarrow> pyexc + pyval" where
  "get_remote_package h package_name =
     (case get_package_info h package_name of
        Inl (GetPackageInfoError m c) \<Rightarrow> Inr JNull
      | Inl e \<Rightarrow> Inl e
      | Inr v \<Rightarrow> Inr v)"

definition package_is_installed :: "host \<Rightarrow> env_manager \<Rightarrow> string \<Rightarrow> pyexc + bool" where
  "package_is_installed h self package_name =
     (case get_package_version h self package_name of
        Inl e \<Rightarrow> Inl e
      | Inr version \<Rightarrow> Inr (version \<noteq> JNull))"

subsection \<open>package\_update\_available\<close>

text \<open>The part of \<open>package_update_available\<close> after the two early returns: the
  checks on the remote data and the comparison.\<close>

definition check_remote_data :: "pyval \<Rightarrow> pyval \<Rightarrow> pyexc + bool \<times> pyval \<times> pyval" where
  "check_remote_data remote_data local_version =
     (case py_contains ''info'' remote_data of
        Inl e \<Rightarrow> Inl e
      | Inr has_info \<Rightarrow>
          if \<not> has_info then Inl (ValueError ''Invalid package data.'' None)
          else
            (case py_getitem remote_data ''info'' of
               Inl e \<Rightarrow> Inl e
             | Inr info \<Rightarrow>
                 (case py_contains ''version'' info of
                    Inl e \<Rightarrow> Inl e
                  | Inr has_version \<Rightarrow>
                      if \<not> has_version then Inl (ValueError ''Invalid package data.'' None)
                      else
                        (case py_getitem info ''version'' of
                           Inl e \<Rightarrow> Inl e
                         | Inr latest_version \<Rightarrow>
                             if latest_version = JNull
                             then Inl (ValueError ''Invalid package data.'' None)
                             else Inr (\<not> py_eq latest_version local_version,
                                       latest_version, local_version)))))"

definition package_update_available ::
  "host \<Rightarrow> env_manager \<Rightarrow> string \<Rightarrow> pyexc + bool \<times> pyval \<times> pyval" where
  "package_update_available h self package_name =
     (case get_package_version h self package_name of
        Inl e \<Rightarrow> Inl e
      | Inr local_version \<Rightarrow>
          if local_version = JNull then Inr (False, JNull, JNull)
          else
            (case get_remote_package h package_name of
               Inl e \<Rightarrow> Inl e
             | Inr remote_data \<Rightarrow>
                 if remote_data = JNull then Inr (False, JNull, local_version)
                 else check_remote_data remote_data local_version))"

section \<open>Concrete hosts\<close>

text \<open>
  A manager of the environment \<open>/venv\<close> on a POSIX host, and a host on which every
  command ends as \<open>proc\<close>, \<open>json.loads\<close> returns \<open>parsed\<close> and the index answers
  \<open>resp\<close>. The theorems below are evaluated on them.
\<close>

definition example_manager :: env_manager where
  "example_manager = \<lparr>env_path = ''/venv'', python_exe = ''/venv/bin/python''\<rparr>"

definition example_host ::
  "completed_process option \<Rightarrow> pyval option \<Rightarrow> response option \<Rightarrow> host" where
  "example_host proc parsed resp =
     \<lparr>platform_system = ''Linux'',
      os_path_join = posixpath_join,
      os_path_isfile = (\<lambda>p. p = ''/venv/bin/python''),
      spawn = (\<lambda>cmd. proc),
      json_loads = (\<lambda>s. parsed),
      requests_get = (\<lambda>url. resp)\<rparr>"

definition exited :: "int \<Rightarrow> string list \<Rightarrow> string list \<Rightarrow> completed_process" where
  "exited rc out err = \<lparr>stdout_lines = out, stderr_lines = err, returncode = rc\<rparr>"

text \<open>A Windows host whose only file is the interpreter of the environment \<open>venv\<close>
  on drive \<open>C:\<close>; the character \<open>CHR 0x5C\<close> is the backslash.\<close>

definition windows_host :: host where
  "windows_host =
     \<lparr>platform_system = ''Windows'',
      os_path_join = (\<lambda>a ps. str_join [CHR 0x5C] (a # ps)),
      os_path_isfile =
        (\<lambda>p. p = ''C:'' @ [CHR 0x5C] @ ''venv'' @ [CHR 0x5C] @ ''Scripts''
                   @ [CHR 0x5C] @ ''python.exe''),
      spawn = (\<lambda>cmd. None),
      json_loads = (\<lambda>s. None),
      requests_get = (\<lambda>url. None)\<rparr>"

text \<open>A host whose package list holds \<open>pip\<close> and \<open>Requests\<close> at version \<open>v\<close>, and
  whose index answers \<open>resp\<close>.\<close>

definition installed_requests :: "string \<Rightarrow> pyval" where
  "installed_requests v =
     JArr [JObj [(''name'', JStr ''pip''), (''version'', JStr ''24.0'')],
           JObj [(''name'', JStr ''Requests''), (''version'', JStr v)]]"

definition index_answers :: "int \<Rightarrow> pyval option \<Rightarrow> response" where
  "index_answers st body = \<lparr>status_code = st, response_json = body\<rparr>"

definition listing_host :: "string \<Rightarrow> response option \<Rightarrow> host" where
  "listing_host v resp =
     example_host (Some (exited 0 [''[...]''] [])) (Some (installed_requests v)) resp"

section \<open>Helper lemmas\<close>

lemma read_stream_fold:
  "read_stream ls callback s = (case callback of None \<Rightarrow> s | Some f \<Rightarrow> fold f ls s)"
  by (induction ls arbitrary: s) (auto split: option.splits)

text \<open>When \<open>get_package_info\<close> fails: the connection failed, the status is from 400 to
  599, or the body is not JSON. The failure is always a \<open>GetPackageInfoError\<close>.\<close>

lemma get_package_info_try_Inl:
  "get_package_info_try h url = Inl c \<longleftrightarrow>
     (requests_get h url = None \<and> c = ConnectionError)
     \<or> (\<exists>r. requests_get h url = Some r \<and> 400 \<le> status_code r \<and> status_code r < 600
            \<and> c = HTTPError (status_code r))
     \<or> (\<exists>r. requests_get h url = Some r \<and> \<not> (400 \<le> status_code r \<and> status_code r < 600)
            \<and> response_json r = None \<and> c = RequestsJSONDecodeError)"
  by (auto simp add: get_package_info_try_def raise_for_status_def
      response_json_call_def split: option.splits sum.splits if_splits)

lemma get_package_info_Inl:
  "get_package_info h n = Inl e \<longleftrightarrow>
     (\<exists>c. e = GetPackageInfoError (''Failed to fetch package data for '' @ n @ ''.'') (Some c)
        \<and> get_package_info_try h (''https://pypi.org/pypi/'' @ n @ ''/json'') = Inl c)"
  by (auto simp add: get_package_info_def get_package_info_try_def raise_for_status_def
      response_json_call_def Let_def split: option.splits sum.splits if_splits)

lemma get_package_version_listing_host:
  "get_package_version (listing_host v resp) example_manager ''requests'' = Inr (JStr v)"
  by (simp add: get_package_version_def get_local_package_def all_packages_def
      check_output_def listing_host_def example_host_def exited_def installed_requests_def
      example_manager_def str_lower_def lower_char_def)

lemma get_package_info_listing_host:
  "get_package_info (listing_host v (Some (index_answers 200 (Some d)))) n = Inr d"
  by (simp add: get_package_info_def get_package_info_try_def raise_for_status_def
      response_json_call_def listing_host_def example_host_def index_answers_def)

lemma get_package_info_listing_host_passes:
  "\<not> (400 \<le> st \<and> st < 600) \<Longrightarrow>
     get_package_info (listing_host v (Some (index_answers st (Some d)))) n = Inr d"
  by (simp add: get_package_info_def get_package_info_try_def raise_for_status_def
      response_json_call_def listing_host_def example_host_def index_answers_def)

lemma requests_get_listing_host:
  "requests_get (listing_host v resp) url = resp"
  by (simp add: listing_host_def example_host_def)

section \<open>install\_package\<close>

text \<open>
  C10. With the empty string as version, \<open>install_package\<close> builds the command it
  builds with no version: the package argument is the bare package name, no pin is
  formed, and the call has the same result.
\<close>

theorem install_cmd_empty_version:
  "install_cmd self package_name (Some []) upgrade = install_cmd self package_name None upgrade
   \<and> install_cmd self package_name (Some []) upgrade ! 4 = package_name
   \<and> install_package h self package_name (Some []) upgrade
       = install_package h self package_name None upgrade"
  by (cases upgrade) (simp_all add: install_cmd_def install_package_def)

text \<open>
  C4. The package argument of the install command is not the package name followed by
  the constraint: for \<open>requests\<close> with \<open>>=1.0\<close> the command's last element is the
  requirement between two double quote characters, and so is the pin built from
  \<open>1.2.3\<close>. The command is run without a shell, so the quote characters reach the
  package manager.
\<close>

theorem install_cmd_quotes_requirement:
  "install_cmd example_manager ''requests'' (Some ''>=1.0'') False
     = [''/venv/bin/python'', ''-m'', ''pip'', ''install'',
        [CHR 0x22] @ ''requests>=1.0'' @ [CHR 0x22]]
   \<and> install_cmd example_manager ''requests'' (Some ''>=1.0'') False ! 4 \<noteq> ''requests>=1.0''
   \<and> install_cmd example_manager ''requests'' (Some ''1.2.3'') False ! 4
       = [CHR 0x22] @ ''requests==1.2.3'' @ [CHR 0x22]
   \<and> install_cmd example_manager ''requests'' (Some ''1.2.3'') False ! 4 \<noteq> ''requests==1.2.3''"
  by (simp add: install_cmd_def example_manager_def set_last_def)

text \<open>
  C1, as the claim states it, fails: when the package manager exits with code 1,
  \<open>install_package\<close> returns \<open>False\<close> and raises nothing.
\<close>

theorem install_package_failure_returns_False:
  "install_package
     (example_host (Some (exited 1 [] [''ERROR: No matching distribution''])) None None)
     example_manager ''nonexistent_package'' None False = Inr False"
  by (simp add: install_package_def check_call_def example_host_def exited_def)

text \<open>
  C1, amended. Whenever the package manager process was started, \<open>install_package\<close>
  returns a boolean: \<open>True\<close> when the return code is zero and \<open>False\<close> when it is
  not. The \<open>CalledProcessError\<close> is caught and does not reach the caller.
\<close>

theorem install_package_result:
  assumes "spawn h (install_cmd self package_name version upgrade) = Some p"
  shows "install_package h self package_name version upgrade = Inr (returncode p = 0)"
  using assms by (simp add: install_package_def check_call_def)

theorem install_package_result_witness:
  "install_package (example_host (Some (exited 1 [] [])) None None)
     example_manager ''nonexistent_package'' (Some ''1.0'') True = Inr False
   \<and> install_package (example_host (Some (exited 0 [] [])) None None)
     example_manager ''requests'' None False = Inr True"
  using install_package_result [of "example_host (Some (exited 1 [] [])) None None"
          example_manager "''nonexistent_package''" "Some ''1.0''" True "exited 1 [] []"]
        install_package_result [of "example_host (Some (exited 0 [] [])) None None"
          example_manager "''requests''" None False "exited 0 [] []"]
  by (simp add: example_host_def exited_def)

section \<open>run\_subprocess\_with\_streams\<close>

text \<open>
  C3, as the claim states it, fails: for a process that exits with code 0 the function
  returns \<open>None\<close>, which is not the exit code 0.
\<close>

theorem run_subprocess_with_streams_returns_None:
  "run_subprocess_with_streams
       (example_host (Some (exited 0 [''pip 24.0''] [])) None None)
       [''/venv/bin/python'', ''-m'', ''pip'', ''--version'']
       (Some (\<lambda>l log. log @ [l])) [] (Some (\<lambda>l log. log @ [l])) []
     = ([''pip 24.0''], [], Inr JNull)
   \<and> (Inr JNull :: pyexc + pyval) \<noteq> Inr (JInt 0)"
  by (simp add: run_subprocess_with_streams_def example_host_def exited_def)

text \<open>
  C3, amended. For every argv whose process was started, each sink has received every
  line of its stream, in order, when the function ends (a missing sink leaves its state
  as it was); the function then returns \<open>None\<close> when the exit code is zero, and when it
  is not zero it raises a \<open>ValueError\<close> whose message holds the argv joined by spaces
  and whose cause is the \<open>CalledProcessError\<close> carrying the exit code and the argv.
\<close>

theorem run_subprocess_with_streams_result:
  assumes "spawn h args = Some p"
  shows "run_subprocess_with_streams h args stdout_callback sa stderr_callback sb =
           ((case stdout_callback of None \<Rightarrow> sa | Some f \<Rightarrow> fold f (stdout_lines p) sa),
            (case stderr_callback of None \<Rightarrow> sb | Some g \<Rightarrow> fold g (stderr_lines p) sb),
            (if returncode p = 0 then Inr JNull
             else Inl (ValueError (''Failed to call '' @ str_join '' '' args)
                         (Some (CalledProcessError (returncode p) args)))))"
  using assms by (simp add: run_subprocess_with_streams_def read_stream_fold Let_def)

theorem run_subprocess_with_streams_result_witness:
  "run_subprocess_with_streams
       (example_host (Some (exited 2 [''a'', ''b''] [''oops''])) None None)
       [''pip'', ''install'', ''x'']
       (Some (\<lambda>l log. log @ [l])) [] (Some (\<lambda>l log. log @ [l])) []
     = ([''a'', ''b''], [''oops''],
        Inl (ValueError ''Failed to call pip install x''
               (Some (CalledProcessError 2 [''pip'', ''install'', ''x'']))))
   \<and> run_subprocess_with_streams
       (example_host (Some (exited 0 [''a'', ''b''] [''warn''])) None None)
       [''pip'', ''--version'']
       (Some (\<lambda>l log. log @ [l])) [] (None :: (string \<Rightarrow> string list \<Rightarrow> string list) option) []
     = ([''a'', ''b''], [], Inr JNull)"
  using run_subprocess_with_streams_result
          [of "example_host (Some (exited 2 [''a'', ''b''] [''oops''])) None None"
              "[''pip'', ''install'', ''x'']" "exited 2 [''a'', ''b''] [''oops'']"
              "Some (\<lambda>l log. log @ [l])" "[]" "Some (\<lambda>l log. log @ [l])" "[]"]
        run_subprocess_with_streams_result
          [of "example_host (Some (exited 0 [''a'', ''b''] [''warn''])) None None"
              "[''pip'', ''--version'']" "exited 0 [''a'', ''b''] [''warn'']"
              "Some (\<lambda>l log. log @ [l])" "[]" "None :: (string \<Rightarrow> string list \<Rightarrow> string list) option" "[]"]
  by (simp add: example_host_def exited_def)

section \<open>all\_packages\<close>

text \<open>
  C7, as the claim states it, fails: the failure raised when the listing command exits
  with code 1 and the failure raised when its output is not JSON are of the same kind,
  \<open>ValueError\<close>.
\<close>

theorem all_packages_failures_same_kind:
  "all_packages (example_host (Some (exited 1 [] [''no pip''])) None None) example_manager
     = Inl (ValueError ''Failed to list packages.''
              (Some (CalledProcessError 1
                 [''/venv/bin/python'', ''-m'', ''pip'', ''list'', ''--format=json''])))
   \<and> all_packages (example_host (Some (exited 0 [''not json''] [])) None None) example_manager
     = Inl (ValueError ''Failed to parse pip output.'' (Some JSONDecodeError))
   \<and> exc_kind (ValueError ''Failed to list packages.''
              (Some (CalledProcessError 1
                 [''/venv/bin/python'', ''-m'', ''pip'', ''list'', ''--format=json''])))
     = exc_kind (ValueError ''Failed to parse pip output.'' (Some JSONDecodeError))"
  by (simp add: all_packages_def check_output_def example_host_def exited_def example_manager_def)

text \<open>
  C7, amended. When the listing command was started and exits with a non-zero code,
  \<open>all_packages\<close> raises \<open>ValueError\<close> with the message \<open>Failed to list packages.\<close>,
  caused by the \<open>CalledProcessError\<close>; when it exits with zero and its output is not
  JSON, \<open>all_packages\<close> raises \<open>ValueError\<close> with the message
  \<open>Failed to parse pip output.\<close>, caused by the \<open>JSONDecodeError\<close>. Every failure of
  \<open>all_packages\<close> after the command was started is of kind \<open>ValueError\<close>: the two
  causes differ in message and cause, not in kind.
\<close>

theorem all_packages_failures:
  assumes "spawn h [python_exe self, ''-m'', ''pip'', ''list'', ''--format=json''] = Some p"
  shows "(returncode p \<noteq> 0 \<longrightarrow>
            all_packages h self =
              Inl (ValueError ''Failed to list packages.''
                     (Some (CalledProcessError (returncode p)
                        [python_exe self, ''-m'', ''pip'', ''list'', ''--format=json'']))))
       \<and> (returncode p = 0 \<and> json_loads h (concat (stdout_lines p)) = None \<longrightarrow>
            all_packages h self =
              Inl (ValueError ''Failed to parse pip output.'' (Some JSONDecodeError)))
       \<and> (\<forall>e. all_packages h self = Inl e \<longrightarrow> exc_kind e = ''ValueError'')"
  using assms
  by (auto simp add: all_packages_def check_output_def split: option.splits)

theorem all_packages_failures_witness:
  "all_packages (example_host (Some (exited 1 [] [''no pip''])) None None) example_manager
     = Inl (ValueError ''Failed to list packages.''
              (Some (CalledProcessError 1
                 [''/venv/bin/python'', ''-m'', ''pip'', ''list'', ''--format=json''])))
   \<and> all_packages (example_host (Some (exited 0 [''not json''] [])) None None) example_manager
     = Inl (ValueError ''Failed to parse pip output.'' (Some JSONDecodeError))
   \<and> exc_kind (ValueError ''Failed to parse pip output.'' (Some JSONDecodeError)) = ''ValueError''"
  using all_packages_failures
          [of "example_host (Some (exited 1 [] [''no pip''])) None None" example_manager
              "exited 1 [] [''no pip'']"]
        all_packages_failures
          [of "example_host (Some (exited 0 [''not json''] [])) None None" example_manager
              "exited 0 [''not json''] []"]
  by (simp add: example_host_def exited_def example_manager_def)

section \<open>get\_python\_executable\<close>

text \<open>
  C8. On a Windows host \<open>get_python_executable\<close> returns the root joined with
  \<open>Scripts\<close> and \<open>python.exe\<close>, on any other host the root joined with \<open>bin\<close> and
  \<open>python\<close>, and only when that path is a regular file. It fails exactly when the path
  is not a regular file, and then with \<open>FileNotFoundError\<close>. Constructing an
  \<open>EnvManager\<close> fails with the same exception under the same condition, and otherwise
  holds the root and that path.
\<close>

theorem get_python_executable_locates:
  "(platform_system h = ''Windows'' \<longrightarrow>
      (get_python_executable h root = Inr p \<longleftrightarrow>
         p = os_path_join h root [''Scripts'', ''python.exe''] \<and> os_path_isfile h p))
   \<and> (platform_system h \<noteq> ''Windows'' \<longrightarrow>
      (get_python_executable h root = Inr p \<longleftrightarrow>
         p = os_path_join h root [''bin'', ''python''] \<and> os_path_isfile h p))
   \<and> (get_python_executable h root = Inl e \<longleftrightarrow>
         e = FileNotFoundError (''Python executable not found in virtual environment at '' @ root)
         \<and> \<not> os_path_isfile h
               (if platform_system h = ''Windows''
                then os_path_join h root [''Scripts'', ''python.exe'']
                else os_path_join h root [''bin'', ''python'']))
   \<and> (EnvManager h root = Inl e \<longleftrightarrow> get_python_executable h root = Inl e)
   \<and> (EnvManager h root = Inr m \<longleftrightarrow>
         get_python_executable h root = Inr (python_exe m) \<and> env_path m = root)"
  by (auto simp add: get_python_executable_def EnvManager_def Let_def split: sum.splits)

theorem get_python_executable_locates_witness:
  "get_python_executable (example_host None None None) ''/venv'' = Inr ''/venv/bin/python''
   \<and> get_python_executable (example_host None None None) ''/tmp/empty''
       = Inl (FileNotFoundError ''Python executable not found in virtual environment at /tmp/empty'')
   \<and> EnvManager (example_host None None None) ''/tmp/empty''
       = Inl (FileNotFoundError ''Python executable not found in virtual environment at /tmp/empty'')
   \<and> EnvManager (example_host None None None) ''/venv'' = Inr example_manager
   \<and> get_python_executable windows_host (''C:'' @ [CHR 0x5C] @ ''venv'')
       = Inr (''C:'' @ [CHR 0x5C] @ ''venv'' @ [CHR 0x5C] @ ''Scripts'' @ [CHR 0x5C] @ ''python.exe'')"
  using get_python_executable_locates
          [of "example_host None None None" "''/venv''" "''/venv/bin/python''"
              "FileNotFoundError []" example_manager]
        get_python_executable_locates
          [of "example_host None None None" "''/tmp/empty''" "''/tmp/empty/bin/python''"
              "FileNotFoundError ''Python executable not found in virtual environment at /tmp/empty''"
              example_manager]
        get_python_executable_locates
          [of windows_host "''C:'' @ [CHR 0x5C] @ ''venv''"
              "''C:'' @ [CHR 0x5C] @ ''venv'' @ [CHR 0x5C] @ ''Scripts'' @ [CHR 0x5C] @ ''python.exe''"
              "FileNotFoundError []" example_manager]
  by (simp add: example_host_def windows_host_def example_manager_def)

section \<open>package\_update\_available\<close>

text \<open>
  C2. When the local version is known and the fetched payload is an object whose
  \<open>info\<close> object holds a version that is not \<open>None\<close>, the result holds the latest
  and the local version, and its flag is true exactly when the two versions are not
  equal as Python values; no ordering is involved, so a local version ahead of the index
  is reported as an update.
\<close>

theorem update_available_iff_versions_differ:
  assumes "get_package_version h self package_name = Inr local_version"
    and "local_version \<noteq> JNull"
    and "get_package_info h package_name = Inr (JObj payload)"
    and "map_of payload ''info'' = Some (JObj info)"
    and "map_of info ''version'' = Some latest_version"
    and "latest_version \<noteq> JNull"
  shows "package_update_available h self package_name =
           Inr (\<not> py_eq latest_version local_version, latest_version, local_version)"
  using assms
  by (simp add: package_update_available_def get_remote_package_def check_remote_data_def)

theorem update_available_iff_versions_differ_witness:
  "package_update_available
      (listing_host ''3.0.0rc1''
         (Some (index_answers 200 (Some (JObj [(''info'', JObj [(''version'', JStr ''2.32.3'')])])))))
      example_manager ''requests''
     = Inr (True, JStr ''2.32.3'', JStr ''3.0.0rc1'')
   \<and> package_update_available
      (listing_host ''2.32.3''
         (Some (index_answers 200 (Some (JObj [(''info'', JObj [(''version'', JStr ''2.32.3'')])])))))
      example_manager ''requests''
     = Inr (False, JStr ''2.32.3'', JStr ''2.32.3'')"
  using update_available_iff_versions_differ
          [of "listing_host ''3.0.0rc1''
                 (Some (index_answers 200 (Some (JObj [(''info'', JObj [(''version'', JStr ''2.32.3'')])]))))"
              example_manager "''requests''" "JStr ''3.0.0rc1''"
              "[(''info'', JObj [(''version'', JStr ''2.32.3'')])]"
              "[(''version'', JStr ''2.32.3'')]" "JStr ''2.32.3''"]
        update_available_iff_versions_differ
          [of "listing_host ''2.32.3''
                 (Some (index_answers 200 (Some (JObj [(''info'', JObj [(''version'', JStr ''2.32.3'')])]))))"
              example_manager "''requests''" "JStr ''2.32.3''"
              "[(''info'', JObj [(''version'', JStr ''2.32.3'')])]"
              "[(''version'', JStr ''2.32.3'')]" "JStr ''2.32.3''"]
  by (simp add: get_package_version_listing_host get_package_info_listing_host)

text \<open>
  C5, as the claim states it, fails: a status outside 200 to 299 is not always a failed
  lookup. \<open>raise_for_status\<close> raises only for a status from 400 to 599, so with the
  local version known, a response of status 302 whose body holds a version is compared
  and reported as an update, and a response of status 600 whose body has no \<open>info\<close>
  raises \<open>ValueError\<close>.
\<close>

theorem redirect_status_is_not_soft:
  "package_update_available
      (listing_host ''2.31.0''
         (Some (index_answers 302 (Some (JObj [(''info'', JObj [(''version'', JStr ''9.9'')])])))))
      example_manager ''requests''
     = Inr (True, JStr ''9.9'', JStr ''2.31.0'')
   \<and> package_update_available
      (listing_host ''2.31.0''
         (Some (index_answers 600 (Some (JObj [(''message'', JStr ''Not Found'')])))))
      example_manager ''requests''
     = Inl (ValueError ''Invalid package data.'' None)"
  by (simp add: package_update_available_def get_remote_package_def check_remote_data_def
      get_package_version_listing_host get_package_info_listing_host_passes)

text \<open>
  C5, amended. When the local version is known and the index lookup fails, that is the
  connection fails, the status is from 400 to 599, or the body is not JSON,
  \<open>package_update_available\<close> raises nothing and returns no update, no latest version
  and the local version.
\<close>

theorem lookup_failure_is_soft:
  assumes "get_package_version h self package_name = Inr local_version"
    and "local_version \<noteq> JNull"
    and "requests_get h (''https://pypi.org/pypi/'' @ package_name @ ''/json'') = None
         \<or> (\<exists>r. requests_get h (''https://pypi.org/pypi/'' @ package_name @ ''/json'') = Some r
                \<and> ((400 \<le> status_code r \<and> status_code r < 600) \<or> response_json r = None))"
  shows "package_update_available h self package_name = Inr (False, JNull, local_version)"
proof -
  from assms(3) obtain c
    where "get_package_info_try h (''https://pypi.org/pypi/'' @ package_name @ ''/json'') = Inl c"
    unfolding get_package_info_try_Inl
    by (cases "requests_get h (''https://pypi.org/pypi/'' @ package_name @ ''/json'')") auto
  then obtain m where "get_package_info h package_name = Inl (GetPackageInfoError m (Some c))"
    using get_package_info_Inl [of h package_name] by blast
  with assms(1,2) show ?thesis
    by (simp add: package_update_available_def get_remote_package_def)
qed

theorem lookup_failure_is_soft_witness:
  "package_update_available (listing_host ''2.31.0'' None) example_manager ''requests''
     = Inr (False, JNull, JStr ''2.31.0'')
   \<and> package_update_available
        (listing_host ''2.31.0'' (Some (index_answers 503 (Some (JObj []))))) example_manager ''requests''
     = Inr (False, JNull, JStr ''2.31.0'')
   \<and> package_update_available
        (listing_host ''2.31.0'' (Some (index_answers 200 None))) example_manager ''requests''
     = Inr (False, JNull, JStr ''2.31.0'')"
  using lookup_failure_is_soft
          [of "listing_host ''2.31.0'' None" example_manager "''requests''" "JStr ''2.31.0''"]
        lookup_failure_is_soft
          [of "listing_host ''2.31.0'' (Some (index_answers 503 (Some (JObj []))))"
              example_manager "''requests''" "JStr ''2.31.0''"]
        lookup_failure_is_soft
          [of "listing_host ''2.31.0'' (Some (index_answers 200 None))"
              example_manager "''requests''" "JStr ''2.31.0''"]
  by (simp add: get_package_version_listing_host requests_get_listing_host index_answers_def)

text \<open>
  C6, as the claim states it, fails: when the fetch succeeds with the JSON payload
  \<open>null\<close>, which holds no version, \<open>package_update_available\<close> raises nothing and
  returns the result of a failed lookup.
\<close>

theorem null_payload_is_soft:
  "package_update_available
      (listing_host ''2.31.0'' (Some (index_answers 200 (Some JNull))))
      example_manager ''requests''
     = Inr (False, JNull, JStr ''2.31.0'')
   \<and> get_package_info (listing_host ''2.31.0'' (Some (index_answers 200 (Some JNull)))) ''requests''
     = Inr JNull"
  by (simp add: package_update_available_def get_remote_package_def
      get_package_version_listing_host get_package_info_listing_host)

text \<open>
  C6, amended. When the local version is known and the fetch succeeds with a JSON object
  that has no \<open>info\<close> member, or whose \<open>info\<close> member is a JSON object with no
  \<open>version\<close> member or with \<open>null\<close> as version, \<open>package_update_available\<close> raises
  \<open>ValueError\<close> with the message \<open>Invalid package data.\<close>.
\<close>

theorem missing_version_is_ValueError:
  assumes "get_package_version h self package_name = Inr local_version"
    and "local_version \<noteq> JNull"
    and "get_package_info h package_name = Inr (JObj payload)"
    and "map_of payload ''info'' = None
         \<or> (\<exists>info. map_of payload ''info'' = Some (JObj info)
               \<and> (map_of info ''version'' = None \<or> map_of info ''version'' = Some JNull))"
  shows "package_update_available h self package_name
           = Inl (ValueError ''Invalid package data.'' None)"
  using assms
  by (auto simp add: package_update_available_def get_remote_package_def check_remote_data_def)

theorem missing_version_is_ValueError_witness:
  "package_update_available
      (listing_host ''2.31.0'' (Some (index_answers 200 (Some (JObj [(''message'', JStr ''hi'')])))))
      example_manager ''requests''
     = Inl (ValueError ''Invalid package data.'' None)
   \<and> package_update_available
      (listing_host ''2.31.0''
         (Some (index_answers 200 (Some (JObj [(''info'', JObj [(''name'', JStr ''requests'')])])))))
      example_manager ''requests''
     = Inl (ValueError ''Invalid package data.'' None)
   \<and> package_update_available
      (listing_host ''2.31.0''
         (Some (index_answers 200 (Some (JObj [(''info'', JObj [(''version'', JNull)])])))))
      example_manager ''requests''
     = Inl (ValueError ''Invalid package data.'' None)"
  using missing_version_is_ValueError
          [of "listing_host ''2.31.0'' (Some (index_answers 200 (Some (JObj [(''message'', JStr ''hi'')]))))"
              example_manager "''requests''" "JStr ''2.31.0''" "[(''message'', JStr ''hi'')]"]
        missing_version_is_ValueError
          [of "listing_host ''2.31.0''
                 (Some (index_answers 200 (Some (JObj [(''info'', JObj [(''name'', JStr ''requests'')])]))))"
              example_manager "''requests''" "JStr ''2.31.0''"
              "[(''info'', JObj [(''name'', JStr ''requests'')])]"]
        missing_version_is_ValueError
          [of "listing_host ''2.31.0''
                 (Some (index_answers 200 (Some (JObj [(''info'', JObj [(''version'', JNull)])]))))"
              example_manager "''requests''" "JStr ''2.31.0''"
              "[(''info'', JObj [(''version'', JNull)])]"]
  by (simp add: get_package_version_listing_host get_package_info_listing_host)

end
